theory Spec2Isabelle
  imports Main "HOL-Library.Word"
begin

unbundle bit_operations_syntax

section \<open>The loopback file system of go-fuse (fuse/loopback.go)\<close>

text \<open>
  The adapter forwards every request to a primitive of the host (the Go runtime's
  \<open>os\<close> and \<open>syscall\<close> packages and the file system below them). The host is not
  part of the repository, so it is a parameter of the model: a record of the answers its
  primitives give. Every operation of the adapter returns its Go result together with
  the list of host primitives it issued, oldest first.
\<close>

subsection \<open>Status codes and host errors\<close>

text \<open>\<open>type Status int32\<close>; the Go conversion \<open>Status(x)\<close> of an \<open>int\<close> keeps the low 32 bits.\<close>

type_synonym Status = "32 word"

definition to_Status :: "int \<Rightarrow> Status" where
  "to_Status x = word_of_int x"

text \<open>
  The host's error numbers used below (\<open>syscall.ENOENT\<close>, \<open>syscall.EACCES\<close>,
  \<open>syscall.EIO\<close> on Linux) and the status constants the source names. The constants
  \<open>OK\<close> and \<open>ENOENT\<close> are declared outside loopback.go; they are the spec's \<open>OK\<close> and
  \<open>NotFound\<close>, the latter the host's code for absence carried into the status space.
\<close>

definition syscall_ENOENT :: int where "syscall_ENOENT = 2"
definition syscall_EIO :: int where "syscall_EIO = 5"
definition syscall_EACCES :: int where "syscall_EACCES = 13"

definition OK :: Status where "OK = 0"
definition ENOENT :: Status where "ENOENT = to_Status syscall_ENOENT"

text \<open>
  A non-nil \<open>os.Error\<close> value of the host: the end-of-file marker \<open>os.EOF\<close>, or an
  error that carries the host's native error code. A nil error is \<open>None\<close>.
\<close>

datatype os_error = EOF | Errno int

text \<open>
  Modelled from the spec: \<open>OsErrorToErrno\<close> is defined outside loopback.go. Section 7:
  "the adapter performs a direct, lossless translation of the host's native error code
  into the service contract's status code space"; the absence of an error is \<open>OK\<close>.
  The spec does not say what the translation of the end-of-file marker is, which has no
  native code, so that case is left open.
\<close>

fun OsErrorToErrno :: "os_error option \<Rightarrow> Status" where
  "OsErrorToErrno None = OK"
| "OsErrorToErrno (Some (Errno e)) = to_Status e"

subsection \<open>Data\<close>

text \<open>
  The host's metadata snapshot \<open>os.FileInfo\<close>: the two fields loopback.go reads
  (\<open>Name\<close>, \<open>Mode\<close>) and those the spec lists for the attribute record.
\<close>

record FileInfo =
  fi_Name :: string
  fi_Mode :: "32 word"
  fi_Size :: int
  fi_Nlink :: int
  fi_Uid :: int
  fi_Gid :: int
  fi_Atime_ns :: int
  fi_Mtime_ns :: int
  fi_Ctime_ns :: int

text \<open>
  Modelled from the spec: the attribute record \<open>Attr\<close> and \<open>CopyFileInfo\<close> are defined
  outside loopback.go. Section 4.2: "On success, populates size, mode, timestamps, link
  count, ownership from the host metadata snapshot"; section 8: the record's
  "size/mode/timestamps exactly match the host's native metadata".
\<close>

record Attr =
  attr_Size :: int
  attr_Mode :: "32 word"
  attr_Nlink :: int
  attr_Uid :: int
  attr_Gid :: int
  attr_Atime_ns :: int
  attr_Mtime_ns :: int
  attr_Ctime_ns :: int

text \<open>\<open>new(Attr)\<close> and \<open>&Attr{}\<close>: the zero value.\<close>

definition new_Attr :: Attr where
  "new_Attr = \<lparr>attr_Size = 0, attr_Mode = 0, attr_Nlink = 0, attr_Uid = 0, attr_Gid = 0,
     attr_Atime_ns = 0, attr_Mtime_ns = 0, attr_Ctime_ns = 0\<rparr>"

definition CopyFileInfo :: "FileInfo \<Rightarrow> Attr \<Rightarrow> Attr" where
  "CopyFileInfo fi attr =
     attr\<lparr>attr_Size := fi_Size fi, attr_Mode := fi_Mode fi, attr_Nlink := fi_Nlink fi,
       attr_Uid := fi_Uid fi, attr_Gid := fi_Gid fi, attr_Atime_ns := fi_Atime_ns fi,
       attr_Mtime_ns := fi_Mtime_ns fi, attr_Ctime_ns := fi_Ctime_ns fi\<rparr>"

text \<open>\<open>DirEntry\<close>, as loopback.go builds it: a name and a mode.\<close>

record DirEntry =
  de_Name :: string
  de_Mode :: "32 word"

text \<open>
  An open host file \<open>*os.File\<close> is identified by a number; the pointer may be nil
  (\<open>None\<close>). \<open>LoopbackFile\<close> holds one such pointer, its field \<open>file\<close>.
\<close>

type_synonym File = nat

record LoopbackFile =
  lf_file :: "File option"

record LoopbackFileSystem =
  root :: string

definition NewLoopbackFileSystem :: "string \<Rightarrow> LoopbackFileSystem" where
  "NewLoopbackFileSystem r = \<lparr>root = r\<rparr>"

text \<open>\<open>ReadIn\<close>: the two fields \<open>Read\<close> uses, a \<open>uint64\<close> offset and a \<open>uint32\<close> size.\<close>

record ReadIn =
  ri_Offset :: "64 word"
  ri_Size :: "32 word"

text \<open>
  The buffer pool is an opaque allocator (spec, section 6): \<open>AllocBuffer(size)\<close> hands
  out a byte buffer whose previous content is arbitrary.
\<close>

type_synonym BufferPool = "32 word \<Rightarrow> 8 word list"

definition AllocBuffer :: "BufferPool \<Rightarrow> 32 word \<Rightarrow> 8 word list" where
  "AllocBuffer buffers sz = buffers sz"

subsection \<open>The host\<close>

text \<open>
  What one \<open>Readdir\<close> call on an open directory answers: the batch of entries and the
  error. The state of an open directory is the list of answers the host is going to
  give to the successive \<open>Readdir\<close> calls; when it is used up the host reports the end
  of the directory, an empty batch without error.
\<close>

type_synonym readdir_answer = "FileInfo list \<times> os_error option"

text \<open>The host primitives an operation can issue, with their arguments.\<close>

datatype host_call =
    OsLstat string
  | OsOpen string
  | OsOpenFile string int "32 word"
  | OsChmod string "32 word"
  | OsRemove string
  | SyscallUnlink string
  | SyscallRmdir string
  | FileReaddir File nat
  | FileClose File
  | FileReadAt "File option" nat int
  | FileChmod "File option" "32 word"
  | FileChown "File option" int int
  | FileStat "File option"
  | SyscallFtruncate int int

text \<open>
  The answers of the host. A primitive of Go type \<open>(T, os.Error)\<close> that returns either
  a value or an error answers with a sum (\<open>Inl\<close> the error); \<open>syscall\<close> primitives answer
  with an error number, 0 for success. \<open>ReadAt\<close> answers with the bytes the host has at
  that place and the error it reports. \<open>path_exists\<close> says which paths the host's name
  space holds; it is no primitive, the adapter learns about a path only through the
  answers above, and the host can refuse a primitive on a path that exists (below a
  directory that may not be searched, say).
\<close>

record host =
  filepath_Join :: "string \<Rightarrow> string \<Rightarrow> string"
  os_Lstat :: "string \<Rightarrow> os_error + FileInfo"
  os_Open :: "string \<Rightarrow> os_error + File"
  os_OpenFile :: "string \<Rightarrow> int \<Rightarrow> 32 word \<Rightarrow> os_error + File"
  os_Chmod :: "string \<Rightarrow> 32 word \<Rightarrow> os_error option"
  syscall_Unlink :: "string \<Rightarrow> int"
  readdir_answers :: "File \<Rightarrow> readdir_answer list"
  file_ReadAt :: "File option \<Rightarrow> nat \<Rightarrow> int \<Rightarrow> 8 word list \<times> os_error option"
  file_Chmod :: "File option \<Rightarrow> 32 word \<Rightarrow> os_error option"
  file_Chown :: "File option \<Rightarrow> int \<Rightarrow> int \<Rightarrow> os_error option"
  file_Stat :: "File option \<Rightarrow> os_error + FileInfo"
  file_Fd :: "File option \<Rightarrow> int"
  syscall_Ftruncate :: "int \<Rightarrow> int \<Rightarrow> int"
  path_exists :: "string \<Rightarrow> bool"

text \<open>The two components of a Go result \<open>(v, err)\<close> that is a value or an error.\<close>

definition val_of :: "os_error + 'a \<Rightarrow> 'a option" where
  "val_of r = (case r of Inl e \<Rightarrow> None | Inr v \<Rightarrow> Some v)"

definition err_of :: "os_error + 'a \<Rightarrow> os_error option" where
  "err_of r = (case r of Inl e \<Rightarrow> Some e | Inr v \<Rightarrow> None)"

subsection \<open>LoopbackFileSystem\<close>

definition GetPath :: "host \<Rightarrow> LoopbackFileSystem \<Rightarrow> string \<Rightarrow> string" where
  "GetPath h me relPath = filepath_Join h (root me) relPath"

definition GetAttr :: "host \<Rightarrow> LoopbackFileSystem \<Rightarrow> string \<Rightarrow> (Attr option \<times> Status) \<times> host_call list" where
  "GetAttr h me name =
     (let fullPath = GetPath h me name;
          r = os_Lstat h fullPath
      in case r of
           Inl err \<Rightarrow> ((None, ENOENT), [OsLstat fullPath])
         | Inr fi \<Rightarrow> ((Some (CopyFileInfo fi new_Attr), OK), [OsLstat fullPath]))"

text \<open>
  The channel \<open>chan DirEntry\<close> is modelled by what its consumer finds once the producer
  has finished: the capacity it was made with, the values sent, in order, and whether it
  was closed. A send on a full channel only waits for the consumer, so it does not change
  this; the channel is open during every send, since \<open>close\<close> is the producer's last
  action on it.
\<close>

record chan =
  ch_cap :: nat
  ch_sent :: "DirEntry list"
  ch_closed :: bool

definition make_chan :: "nat \<Rightarrow> chan" where
  "make_chan n = \<lparr>ch_cap = n, ch_sent = [], ch_closed = False\<rparr>"

definition chan_send :: "chan \<Rightarrow> DirEntry \<Rightarrow> chan" where
  "chan_send c e = c\<lparr>ch_sent := ch_sent c @ [e]\<rparr>"

definition chan_close :: "chan \<Rightarrow> chan" where
  "chan_close c = c\<lparr>ch_closed := True\<rparr>"

definition want :: nat where
  "want = 500"

text \<open>
  \<open>f.Readdir(want)\<close> on the state of the open directory: the batch, the error and the
  new state.
\<close>

definition File_Readdir ::
  "readdir_answer list \<Rightarrow> FileInfo list \<times> os_error option \<times> readdir_answer list" where
  "File_Readdir s = (case s of [] \<Rightarrow> ([], None, []) | (infos, err) # s' \<Rightarrow> (infos, err, s'))"

text \<open>The inner loop \<open>for i, _ := range infos { output <- DirEntry{...} }\<close>.\<close>

fun send_infos :: "chan \<Rightarrow> FileInfo list \<Rightarrow> chan" where
  "send_infos output [] = output"
| "send_infos output (info # infos) =
     send_infos (chan_send output \<lparr>de_Name = fi_Name info, de_Mode = fi_Mode info\<rparr>) infos"

text \<open>
  The outer loop \<open>for { ... }\<close> of the producer, on the state of the open directory, the
  channel and the host calls issued so far.
\<close>

function OpenDir_loop ::
  "File \<Rightarrow> readdir_answer list \<Rightarrow> chan \<Rightarrow> host_call list \<Rightarrow> chan \<times> host_call list" where
  "OpenDir_loop f s output tr =
     (let (infos, err, s') = File_Readdir s;
          tr' = tr @ [FileReaddir f want];
          output' = send_infos output infos
      in if length infos < want then (output', tr')
         else if err \<noteq> None then (output', tr')
         else OpenDir_loop f s' output' tr')"
  by pat_completeness auto
termination
  by (relation "measure (\<lambda>(f, s, output, tr). length s)")
     (auto simp: File_Readdir_def want_def split: list.splits)

text \<open>The body of the producer goroutine: the loop, then \<open>close(output)\<close> and \<open>f.Close()\<close>.\<close>

definition OpenDir_go ::
  "File \<Rightarrow> readdir_answer list \<Rightarrow> chan \<Rightarrow> chan \<times> host_call list" where
  "OpenDir_go f s output =
     (let (output', tr) = OpenDir_loop f s output []
      in (chan_close output', tr @ [FileClose f]))"

text \<open>
  \<open>OpenDir\<close> returns the channel and \<open>OK\<close> at once and leaves the producer running
  beside its caller. The model returns the channel as the consumer finds it after the
  producer's run, and lists the producer's host calls after the caller's \<open>Open\<close>.
\<close>

definition OpenDir ::
  "host \<Rightarrow> LoopbackFileSystem \<Rightarrow> string \<Rightarrow> (chan option \<times> Status) \<times> host_call list" where
  "OpenDir h me name =
     (let p = GetPath h me name;
          r = os_Open h p
      in case r of
           Inl err \<Rightarrow> ((None, OsErrorToErrno (Some err)), [OsOpen p])
         | Inr f \<Rightarrow>
             (let output = make_chan want;
                  (stream, tr) = OpenDir_go f (readdir_answers h f) output
              in ((Some stream, OK), OsOpen p # tr)))"

text \<open>
  Go's \<open>int\<close> is 64 bits wide here (the source names the 6g compiler), so \<open>int(x)\<close> of
  a \<open>uint32\<close> is its unsigned value, and \<open>int64(x)\<close> of a \<open>uint64\<close> reads the same
  bits as a signed number.
\<close>

definition Open ::
  "host \<Rightarrow> LoopbackFileSystem \<Rightarrow> string \<Rightarrow> 32 word
     \<Rightarrow> (LoopbackFile option \<times> Status) \<times> host_call list" where
  "Open h me name flags =
     (let p = GetPath h me name;
          r = os_OpenFile h p (uint flags) 0
      in case r of
           Inl err \<Rightarrow> ((None, OsErrorToErrno (Some err)), [OsOpenFile p (uint flags) 0])
         | Inr f \<Rightarrow> ((Some \<lparr>lf_file = Some f\<rparr>, OK), [OsOpenFile p (uint flags) 0]))"

definition Chmod :: "host \<Rightarrow> LoopbackFileSystem \<Rightarrow> string \<Rightarrow> 32 word \<Rightarrow> Status \<times> host_call list" where
  "Chmod h me path mode =
     (let p = GetPath h me path;
          err = os_Chmod h p mode
      in (OsErrorToErrno err, [OsChmod p mode]))"

definition Unlink :: "host \<Rightarrow> LoopbackFileSystem \<Rightarrow> string \<Rightarrow> Status \<times> host_call list" where
  "Unlink h me name =
     (let p = GetPath h me name
      in (to_Status (syscall_Unlink h p), [SyscallUnlink p]))"

text \<open>\<open>os.O_CREATE\<close> is \<open>syscall.O_CREAT\<close>, 0x40 on Linux.\<close>

definition O_CREATE :: int where
  "O_CREATE = 64"

definition Create ::
  "host \<Rightarrow> LoopbackFileSystem \<Rightarrow> string \<Rightarrow> 32 word \<Rightarrow> 32 word
     \<Rightarrow> (LoopbackFile option \<times> Status) \<times> host_call list" where
  "Create h me path flags mode =
     (let p = GetPath h me path;
          r = os_OpenFile h p (uint flags OR O_CREATE) mode;
          f = val_of r;
          err = err_of r
      in ((Some \<lparr>lf_file = f\<rparr>, OsErrorToErrno err),
          [OsOpenFile p (uint flags OR O_CREATE) mode]))"

subsection \<open>LoopbackFile\<close>

text \<open>
  \<open>me.file.ReadAt(slice, off)\<close>: the host fills a prefix of the slice with the bytes it
  has, never more than the slice holds, and reports how many and the error. The result
  is the slice after the call, the count and the error.
\<close>

definition File_ReadAt ::
  "host \<Rightarrow> File option \<Rightarrow> 8 word list \<Rightarrow> int \<Rightarrow> 8 word list \<times> nat \<times> os_error option" where
  "File_ReadAt h f b off =
     (let (d, err) = file_ReadAt h f (length b) off;
          d' = take (length b) d
      in (d' @ drop (length d') b, length d', err))"

definition Read ::
  "host \<Rightarrow> LoopbackFile \<Rightarrow> ReadIn \<Rightarrow> BufferPool \<Rightarrow> (8 word list \<times> Status) \<times> host_call list" where
  "Read h me input buffers =
     (let slice = AllocBuffer buffers (ri_Size input);
          (slice', n, err) = File_ReadAt h (lf_file me) slice (sint (ri_Offset input));
          tr = [FileReadAt (lf_file me) (length slice) (sint (ri_Offset input))]
      in if err = Some EOF then ((take n slice', OK), tr)
         else ((take n slice', OsErrorToErrno err), tr))"

definition LoopbackFile_Truncate ::
  "host \<Rightarrow> LoopbackFile \<Rightarrow> 64 word \<Rightarrow> Status \<times> host_call list" where
  "LoopbackFile_Truncate h me sz =
     (let fd = file_Fd h (lf_file me)
      in (to_Status (syscall_Ftruncate h fd (sint sz)), [SyscallFtruncate fd (sint sz)]))"

definition LoopbackFile_Chmod ::
  "host \<Rightarrow> LoopbackFile \<Rightarrow> 32 word \<Rightarrow> Status \<times> host_call list" where
  "LoopbackFile_Chmod h me mode =
     (OsErrorToErrno (file_Chmod h (lf_file me) mode), [FileChmod (lf_file me) mode])"

definition LoopbackFile_Chown ::
  "host \<Rightarrow> LoopbackFile \<Rightarrow> 32 word \<Rightarrow> 32 word \<Rightarrow> Status \<times> host_call list" where
  "LoopbackFile_Chown h me uid gid =
     (OsErrorToErrno (file_Chown h (lf_file me) (uint uid) (uint gid)),
      [FileChown (lf_file me) (uint uid) (uint gid)])"

definition LoopbackFile_GetAttr ::
  "host \<Rightarrow> LoopbackFile \<Rightarrow> (Attr option \<times> Status) \<times> host_call list" where
  "LoopbackFile_GetAttr h me =
     (let r = file_Stat h (lf_file me)
      in case r of
           Inl err \<Rightarrow> ((None, OsErrorToErrno (Some err)), [FileStat (lf_file me)])
         | Inr fi \<Rightarrow> ((Some (CopyFileInfo fi new_Attr), OK), [FileStat (lf_file me)]))"

subsection \<open>Reading a trace\<close>

text \<open>The paths a host call names; a call on an open file or a descriptor names none.\<close>

fun call_paths :: "host_call \<Rightarrow> string list" where
  "call_paths (OsLstat p) = [p]"
| "call_paths (OsOpen p) = [p]"
| "call_paths (OsOpenFile p flags perm) = [p]"
| "call_paths (OsChmod p mode) = [p]"
| "call_paths (OsRemove p) = [p]"
| "call_paths (SyscallUnlink p) = [p]"
| "call_paths (SyscallRmdir p) = [p]"
| "call_paths (FileReaddir f n) = []"
| "call_paths (FileClose f) = []"
| "call_paths (FileReadAt f n off) = []"
| "call_paths (FileChmod f mode) = []"
| "call_paths (FileChown f uid gid) = []"
| "call_paths (FileStat f) = []"
| "call_paths (SyscallFtruncate fd sz) = []"

subsection \<open>A host without faults, and an example host\<close>

text \<open>
  A directory that holds the entries \<open>es\<close>, on a host without faults: each
  \<open>Readdir(n)\<close> answers with the next \<open>n\<close> entries, and with fewer only at the end of
  the directory.
\<close>

function host_batches :: "nat \<Rightarrow> FileInfo list \<Rightarrow> readdir_answer list" where
  "host_batches n es =
     (if n = 0 \<or> length es < n then [(es, None)]
      else (take n es, None) # host_batches n (drop n es))"
  by pat_completeness auto
termination
  by (relation "measure (\<lambda>(n, es). length es)") auto

definition to_DirEntry :: "FileInfo \<Rightarrow> DirEntry" where
  "to_DirEntry info = \<lparr>de_Name = fi_Name info, de_Mode = fi_Mode info\<rparr>"

definition example_info :: FileInfo where
  "example_info = \<lparr>fi_Name = ''notes.txt'', fi_Mode = 33188, fi_Size = 5, fi_Nlink = 1,
     fi_Uid = 1000, fi_Gid = 1000, fi_Atime_ns = 3, fi_Mtime_ns = 2, fi_Ctime_ns = 1\<rparr>"

definition example_entries :: "nat \<Rightarrow> FileInfo list" where
  "example_entries n = map (\<lambda>k. example_info\<lparr>fi_Name := replicate k CHR ''x''\<rparr>) [0..<n]"

definition example_content :: "8 word list" where
  "example_content = [104, 101, 108, 108, 111]"

text \<open>
  A host rooted at \<open>/srv\<close>: a file \<open>notes.txt\<close> of five bytes (open as file 5), a
  directory \<open>secret\<close> that may not be searched and holds a file \<open>key\<close>, a directory
  \<open>big\<close> of 1200 entries (open as file 3), a directory \<open>flaky\<close> whose second batch fails
  (open as file 4), and a file open as 7 whose medium fails after two bytes.
  \<open>path_exists\<close> lists the paths among these that the examples name.
\<close>

definition example_host :: host where
  "example_host = \<lparr>
     filepath_Join = (\<lambda>r p. r @ ''/'' @ p),
     os_Lstat = (\<lambda>p. if p = ''/srv/notes.txt'' then Inr example_info
                     else if p = ''/srv/secret/key'' then Inl (Errno syscall_EACCES)
                     else Inl (Errno syscall_ENOENT)),
     os_Open = (\<lambda>p. if p = ''/srv/big'' then Inr 3
                    else if p = ''/srv/flaky'' then Inr 4
                    else Inl (Errno syscall_ENOENT)),
     os_OpenFile = (\<lambda>p flags perm.
                      if p = ''/srv/notes.txt'' then Inr 5
                      else if p = ''/srv/new.txt'' \<and> bit flags 6 then Inr 6
                      else if p = ''/srv/secret/key'' then Inl (Errno syscall_EACCES)
                      else Inl (Errno syscall_ENOENT)),
     os_Chmod = (\<lambda>p mode. if p = ''/srv/secret/key'' then Some (Errno syscall_EACCES) else None),
     syscall_Unlink = (\<lambda>p. 0),
     readdir_answers = (\<lambda>f. if f = 3 then host_batches want (example_entries 1200)
                            else if f = 4 then [(example_entries 500, None),
                                                (example_entries 3, Some (Errno syscall_EIO)),
                                                (example_entries 7, None)]
                            else []),
     file_ReadAt = (\<lambda>f n off.
                      if f = Some 5
                      then (take n (drop (nat off) example_content),
                            if length example_content < nat off + n then Some EOF else None)
                      else if f = Some 7 then ([7, 7], Some (Errno syscall_EIO))
                      else ([], Some (Errno syscall_EIO))),
     file_Chmod = (\<lambda>f mode. None),
     file_Chown = (\<lambda>f uid gid. None),
     file_Stat = (\<lambda>f. if f = Some 5 then Inr example_info else Inl (Errno syscall_EIO)),
     file_Fd = (\<lambda>f. case f of None \<Rightarrow> - 1 | Some n \<Rightarrow> int n),
     syscall_Ftruncate = (\<lambda>fd sz. if fd < 0 then 9 else 0),
     path_exists = (\<lambda>p. p \<in> set [''/srv'', ''/srv/notes.txt'', ''/srv/secret'',
                                     ''/srv/secret/key'', ''/srv/big'', ''/srv/flaky''])\<rparr>"

definition example_fs :: LoopbackFileSystem where
  "example_fs = NewLoopbackFileSystem ''/srv''"

definition example_pool :: BufferPool where
  "example_pool sz = replicate (unat sz) 0"

section \<open>Properties\<close>

declare OpenDir_loop.simps [simp del]
declare host_batches.simps [simp del]

subsection \<open>The producer loop, one answer at a time\<close>

lemma send_infos_sent:
  "send_infos c infos = c\<lparr>ch_sent := ch_sent c @ map to_DirEntry infos\<rparr>"
  by (induction infos arbitrary: c) (simp_all add: chan_send_def to_DirEntry_def)

lemma OpenDir_loop_short:
  "length infos < want \<Longrightarrow>
     OpenDir_loop f ((infos, err) # rest) c tr
       = (c\<lparr>ch_sent := ch_sent c @ map to_DirEntry infos\<rparr>, tr @ [FileReaddir f want])"
  by (subst OpenDir_loop.simps) (simp add: File_Readdir_def send_infos_sent Let_def)

lemma OpenDir_loop_error:
  "OpenDir_loop f ((infos, Some e) # rest) c tr
     = (c\<lparr>ch_sent := ch_sent c @ map to_DirEntry infos\<rparr>, tr @ [FileReaddir f want])"
  by (subst OpenDir_loop.simps) (simp add: File_Readdir_def send_infos_sent Let_def)

lemma OpenDir_loop_end:
  "OpenDir_loop f [] c tr = (c, tr @ [FileReaddir f want])"
  by (subst OpenDir_loop.simps) (simp add: File_Readdir_def want_def Let_def)

lemma OpenDir_loop_full:
  "want \<le> length infos \<Longrightarrow>
     OpenDir_loop f ((infos, None) # rest) c tr
       = OpenDir_loop f rest (c\<lparr>ch_sent := ch_sent c @ map to_DirEntry infos\<rparr>)
           (tr @ [FileReaddir f want])"
  by (subst OpenDir_loop.simps) (simp add: File_Readdir_def send_infos_sent Let_def)

lemma OpenDir_loop_batches:
  "OpenDir_loop f (host_batches want es) c tr
     = (c\<lparr>ch_sent := ch_sent c @ map to_DirEntry es\<rparr>,
        tr @ replicate (Suc (length es div want)) (FileReaddir f want))"
proof (induction "length es" arbitrary: es c tr rule: less_induct)
  case less
  have pos: "0 < want" by (simp add: want_def)
  show ?case
  proof (cases "length es < want")
    case True
    then have "host_batches want es = [(es, None)]"
      by (subst host_batches.simps) simp
    with True show ?thesis
      by (simp add: OpenDir_loop_short)
  next
    case False
    then have b: "host_batches want es = (take want es, None) # host_batches want (drop want es)"
      using pos by (subst host_batches.simps) simp
    have shorter: "length (drop want es) < length es"
      using False pos by simp
    have full: "want \<le> length (take want es)"
      using False by simp
    have d: "Suc (length (drop want es) div want) = length es div want"
      using False pos by (simp add: le_div_geq)
    have "OpenDir_loop f (host_batches want es) c tr
        = OpenDir_loop f (host_batches want (drop want es))
            (c\<lparr>ch_sent := ch_sent c @ map to_DirEntry (take want es)\<rparr>)
            (tr @ [FileReaddir f want])"
      by (simp only: b OpenDir_loop_full [OF full])
    also have "\<dots> = (c\<lparr>ch_sent := ch_sent c @ map to_DirEntry (take want es)
                          @ map to_DirEntry (drop want es)\<rparr>,
                     (tr @ [FileReaddir f want])
                       @ replicate (Suc (length (drop want es) div want)) (FileReaddir f want))"
      by (simp add: less [OF shorter])
    also have "\<dots> = (c\<lparr>ch_sent := ch_sent c @ map to_DirEntry es\<rparr>,
                     tr @ replicate (Suc (length es div want)) (FileReaddir f want))"
      by (simp only: d map_append [symmetric] append_take_drop_id append_assoc
            replicate_Suc append_Cons append_Nil)
    finally show ?thesis .
  qed
qed

lemma OpenDir_loop_full_prefix:
  "\<forall>b\<in>set pre. want \<le> length (fst b) \<and> snd b = None \<Longrightarrow>
     OpenDir_loop f (pre @ s) c tr
       = OpenDir_loop f s (c\<lparr>ch_sent := ch_sent c @ map to_DirEntry (concat (map fst pre))\<rparr>)
           (tr @ replicate (length pre) (FileReaddir f want))"
proof (induction pre arbitrary: c tr)
  case Nil
  then show ?case by simp
next
  case (Cons b pre)
  obtain infos err where b: "b = (infos, err)" by (cases b)
  with Cons.prems have full: "want \<le> length infos" and ok: "err = None" by simp_all
  from Cons.prems have rest: "\<forall>b\<in>set pre. want \<le> length (fst b) \<and> snd b = None" by simp
  show ?case
    by (simp add: b ok OpenDir_loop_full [OF full] Cons.IH [OF rest] replicate_app_Cons_same)
qed

lemma OpenDir_loop_trace:
  "\<exists>out k. OpenDir_loop f s c tr = (out, tr @ replicate (Suc k) (FileReaddir f want))"
proof (induction s arbitrary: c tr)
  case Nil
  have "OpenDir_loop f [] c tr = (c, tr @ replicate (Suc 0) (FileReaddir f want))"
    by (simp add: OpenDir_loop_end)
  then show ?case by blast
next
  case (Cons b s)
  obtain infos err where b: "b = (infos, err)" by (cases b)
  show ?case
  proof (cases "length infos < want \<or> err \<noteq> None")
    case True
    then have "OpenDir_loop f (b # s) c tr
        = (c\<lparr>ch_sent := ch_sent c @ map to_DirEntry infos\<rparr>,
           tr @ replicate (Suc 0) (FileReaddir f want))"
      by (auto simp: b OpenDir_loop_short OpenDir_loop_error)
    then show ?thesis by blast
  next
    case False
    then have full: "want \<le> length infos" and ok: "err = None" by simp_all
    from Cons.IH [of "c\<lparr>ch_sent := ch_sent c @ map to_DirEntry infos\<rparr>" "tr @ [FileReaddir f want]"]
    obtain out k where
      "OpenDir_loop f s (c\<lparr>ch_sent := ch_sent c @ map to_DirEntry infos\<rparr>) (tr @ [FileReaddir f want])
         = (out, (tr @ [FileReaddir f want]) @ replicate (Suc k) (FileReaddir f want))"
      by blast
    then have "OpenDir_loop f (b # s) c tr = (out, tr @ replicate (Suc (Suc k)) (FileReaddir f want))"
      by (simp add: b ok OpenDir_loop_full [OF full])
    then show ?thesis by blast
  qed
qed


lemma OpenDir_go_batches:
  "OpenDir_go f (host_batches want es) (make_chan want)
     = (\<lparr>ch_cap = want, ch_sent = map to_DirEntry es, ch_closed = True\<rparr>,
        replicate (Suc (length es div want)) (FileReaddir f want) @ [FileClose f])"
  by (simp add: OpenDir_go_def OpenDir_loop_batches make_chan_def chan_close_def)

lemma OpenDir_go_error:
  assumes "\<forall>b\<in>set pre. want \<le> length (fst b) \<and> snd b = None"
  shows "OpenDir_go f (pre @ (infos, Some e) # rest) (make_chan want)
     = (\<lparr>ch_cap = want, ch_sent = map to_DirEntry (concat (map fst pre) @ infos),
          ch_closed = True\<rparr>,
        replicate (length pre + 1) (FileReaddir f want) @ [FileClose f])"
  by (simp add: OpenDir_go_def OpenDir_loop_full_prefix [OF assms] OpenDir_loop_error
      make_chan_def chan_close_def replicate_append_same)

lemma OpenDir_go_normal_end:
  assumes "\<forall>b\<in>set pre. want \<le> length (fst b) \<and> snd b = None"
  shows "fst (OpenDir_go f (pre @ [(infos, None)]) (make_chan want))
     = \<lparr>ch_cap = want, ch_sent = map to_DirEntry (concat (map fst pre) @ infos),
         ch_closed = True\<rparr>"
proof (cases "length infos < want")
  case True
  then show ?thesis
    by (simp add: OpenDir_go_def OpenDir_loop_full_prefix [OF assms] OpenDir_loop_short
        make_chan_def chan_close_def)
next
  case False
  then have full: "want \<le> length infos" by simp
  show ?thesis
    by (simp add: OpenDir_go_def OpenDir_loop_full_prefix [OF assms] OpenDir_loop_full [OF full]
        OpenDir_loop_end make_chan_def chan_close_def)
qed

lemma OpenDir_go_closes:
  "ch_closed (fst (OpenDir_go f s c))
   \<and> (\<exists>k. snd (OpenDir_go f s c) = replicate (Suc k) (FileReaddir f want) @ [FileClose f])"
proof -
  from OpenDir_loop_trace [of f s c "[]"]
  obtain out k where "OpenDir_loop f s c [] = (out, [] @ replicate (Suc k) (FileReaddir f want))"
    by blast
  then show ?thesis
    by (simp add: OpenDir_go_def chan_close_def)
qed

subsection \<open>The batches of a host without faults\<close>

lemma concat_host_batches: "concat (map fst (host_batches n es)) = es"
proof (induction n es rule: host_batches.induct)
  case (1 n es)
  show ?case
  proof (cases "n = 0 \<or> length es < n")
    case True
    then show ?thesis by (subst host_batches.simps) simp
  next
    case False
    with "1" show ?thesis by (subst host_batches.simps) simp
  qed
qed

lemma length_host_batches: "0 < n \<Longrightarrow> length (host_batches n es) = Suc (length es div n)"
proof (induction n es rule: host_batches.induct)
  case (1 n es)
  show ?case
  proof (cases "length es < n")
    case True
    then show ?thesis by (subst host_batches.simps) simp
  next
    case False
    with "1" show ?thesis by (subst host_batches.simps) (simp add: le_div_geq)
  qed
qed

lemma host_batches_last_short:
  "0 < n \<Longrightarrow> length (fst (last (host_batches n es))) < n"
proof (induction n es rule: host_batches.induct)
  case (1 n es)
  show ?case
  proof (cases "length es < n")
    case True
    then show ?thesis by (subst host_batches.simps) simp
  next
    case False
    have ne: "host_batches n (drop n es) \<noteq> []"
      by (subst host_batches.simps) simp
    from False "1" ne show ?thesis by (subst host_batches.simps) simp
  qed
qed

lemma host_batches_butlast_full:
  "0 < n \<Longrightarrow> b \<in> set (butlast (host_batches n es)) \<Longrightarrow> length (fst b) = n \<and> snd b = None"
proof (induction n es rule: host_batches.induct)
  case (1 n es)
  show ?case
  proof (cases "length es < n")
    case True
    with "1.prems" show ?thesis by (subst (asm) host_batches.simps) simp
  next
    case False
    have ne: "host_batches n (drop n es) \<noteq> []"
      by (subst host_batches.simps) simp
    from "1.prems"(2) False "1.prems"(1) ne
    have "b = (take n es, None) \<or> b \<in> set (butlast (host_batches n (drop n es)))"
      by (subst (asm) host_batches.simps) auto
    with False "1" show ?thesis by auto
  qed
qed

lemma length_example_entries: "length (example_entries n) = n"
  by (simp add: example_entries_def)

subsection \<open>The claims\<close>




text \<open>
  C2. \<open>GetAttr\<close> on a path answers \<open>ENOENT\<close> whatever error the host's \<open>Lstat\<close> reports.
  On the example host \<open>Lstat\<close> of \<open>/srv/secret/key\<close> fails with \<open>EACCES\<close>, whose
  translation is 13, and \<open>GetAttr\<close> answers \<open>ENOENT\<close>, which is 2. \<open>Chmod\<close> of the same
  path, failing with the same error, answers 13, and \<open>GetAttr\<close> on a file handle, for a
  failing \<open>Stat\<close>, answers the translation of the host's error.
\<close>

theorem GetAttr_permission_denied_is_ENOENT:
  "os_Lstat example_host (GetPath example_host example_fs ''secret/key'')
     = Inl (Errno syscall_EACCES)
   \<and> GetAttr example_host example_fs ''secret/key''
     = ((None, ENOENT), [OsLstat ''/srv/secret/key''])
   \<and> OsErrorToErrno (Some (Errno syscall_EACCES)) = 13
   \<and> ENOENT = 2
   \<and> Chmod example_host example_fs ''secret/key'' 420 = (13, [OsChmod ''/srv/secret/key'' 420])
   \<and> LoopbackFile_GetAttr example_host \<lparr>lf_file = Some 7\<rparr>
     = ((None, OsErrorToErrno (Some (Errno syscall_EIO))), [FileStat (Some 7)])"
  by (simp add: GetAttr_def Chmod_def LoopbackFile_GetAttr_def GetPath_def example_host_def
      example_fs_def NewLoopbackFileSystem_def ENOENT_def to_Status_def
      syscall_ENOENT_def syscall_EACCES_def syscall_EIO_def)

text \<open>
  C3. A directory of more than 500 entries on a host without faults, with a consumer that
  drains the channel: the stream \<open>OpenDir\<close> returns carries every entry once, in the
  host's order, and is closed. The entries are the concatenation of the host's batches;
  the producer fetches each batch once, \<open>length es div 500 + 1\<close> fetches in all, and the
  last fetch, the only one shorter than 500, ends the loop. (1200 entries: 3 fetches.)
\<close>

theorem OpenDir_lists_every_entry_once:
  assumes "want < length es"
    and "os_Open h (GetPath h me name) = Inr f"
    and "readdir_answers h f = host_batches want es"
  shows "OpenDir h me name
       = ((Some \<lparr>ch_cap = want, ch_sent = map to_DirEntry es, ch_closed = True\<rparr>, OK),
          OsOpen (GetPath h me name)
            # replicate (length es div want + 1) (FileReaddir f want) @ [FileClose f])
     \<and> concat (map fst (host_batches want es)) = es
     \<and> length (host_batches want es) = length es div want + 1
     \<and> length (fst (last (host_batches want es))) < want
     \<and> (\<forall>b\<in>set (butlast (host_batches want es)). length (fst b) = want \<and> snd b = None)"
proof -
  have pos: "0 < want" by (simp add: want_def)
  have "OpenDir h me name
       = ((Some \<lparr>ch_cap = want, ch_sent = map to_DirEntry es, ch_closed = True\<rparr>, OK),
          OsOpen (GetPath h me name)
            # replicate (length es div want + 1) (FileReaddir f want) @ [FileClose f])"
    using assms by (simp add: OpenDir_def Let_def OpenDir_go_batches)
  moreover have "length (host_batches want es) = length es div want + 1"
    by (simp add: length_host_batches [OF pos])
  moreover have "\<forall>b\<in>set (butlast (host_batches want es)). length (fst b) = want \<and> snd b = None"
    using host_batches_butlast_full [OF pos] by blast
  ultimately show ?thesis
    using concat_host_batches [of want es] host_batches_last_short [OF pos, of es] by blast
qed

theorem OpenDir_lists_every_entry_once_witness:
  "OpenDir example_host example_fs ''big''
     = ((Some \<lparr>ch_cap = 500, ch_sent = map to_DirEntry (example_entries 1200),
                ch_closed = True\<rparr>, OK),
        [OsOpen ''/srv/big'', FileReaddir 3 500, FileReaddir 3 500, FileReaddir 3 500,
         FileClose 3])"
proof -
  have p: "GetPath example_host example_fs ''big'' = ''/srv/big''"
    by (simp add: GetPath_def example_host_def example_fs_def NewLoopbackFileSystem_def)
  have a: "os_Open example_host ''/srv/big'' = Inr 3"
    by (simp add: example_host_def)
  have r: "readdir_answers example_host 3 = host_batches want (example_entries 1200)"
    by (simp add: example_host_def)
  have n: "want < length (example_entries 1200)"
    by (simp add: length_example_entries want_def)
  have k: "replicate (1200 div want + 1) c = [c, c, c]" for c :: host_call
    by (simp add: want_def numeral_3_eq_3)
  from OpenDir_lists_every_entry_once [of "example_entries 1200" example_host example_fs
         "''big''" 3]
  have "OpenDir example_host example_fs ''big''
     = ((Some \<lparr>ch_cap = want, ch_sent = map to_DirEntry (example_entries 1200),
                ch_closed = True\<rparr>, OK),
        OsOpen ''/srv/big''
          # replicate (length (example_entries 1200) div want + 1) (FileReaddir 3 want)
            @ [FileClose 3])"
    unfolding p using a r n by blast
  then show ?thesis
    by (simp add: length_example_entries k) (simp add: want_def numeral_2_eq_2)
qed

text \<open>
  C4. \<open>Read\<close> takes its buffer from the pool, for the requested size, and issues one
  \<open>ReadAt\<close> on the retained file for the length of that buffer. It returns the first
  \<open>n\<close> bytes of the buffer after the call, which are the bytes the host filled in; the
  status is \<open>OK\<close> when the host reports end of file, and the translation of the host's
  error (of no error: \<open>OK\<close>) otherwise.
\<close>

theorem Read_returns_filled_prefix:
  "File_ReadAt h (lf_file me) (AllocBuffer buffers (ri_Size input)) (sint (ri_Offset input))
     = (slice', n, err) \<Longrightarrow>
   (err = Some EOF \<longrightarrow> fst (Read h me input buffers) = (take n slice', OK))
   \<and> (err \<noteq> Some EOF \<longrightarrow> fst (Read h me input buffers) = (take n slice', OsErrorToErrno err))
   \<and> snd (Read h me input buffers)
       = [FileReadAt (lf_file me) (length (AllocBuffer buffers (ri_Size input)))
            (sint (ri_Offset input))]
   \<and> length slice' = length (AllocBuffer buffers (ri_Size input))
   \<and> n \<le> length slice'
   \<and> take n slice'
       = take (length (AllocBuffer buffers (ri_Size input)))
           (fst (file_ReadAt h (lf_file me) (length (AllocBuffer buffers (ri_Size input)))
              (sint (ri_Offset input))))"
  by (auto simp: Read_def File_ReadAt_def Let_def min_def split: prod.splits)

theorem Read_returns_filled_prefix_witness:
  "Read example_host \<lparr>lf_file = Some 5\<rparr> \<lparr>ri_Offset = 3, ri_Size = 8\<rparr> example_pool
     = (([108, 111], OK), [FileReadAt (Some 5) 8 3])
   \<and> Read example_host \<lparr>lf_file = Some 7\<rparr> \<lparr>ri_Offset = 0, ri_Size = 4\<rparr> example_pool
     = (([7, 7], 5), [FileReadAt (Some 7) 4 0])"
proof -
  have b8: "AllocBuffer example_pool 8 = [0, 0, 0, 0, 0, 0, 0, 0]"
    by (simp add: AllocBuffer_def example_pool_def) (simp add: eval_nat_numeral)
  have b4: "AllocBuffer example_pool 4 = [0, 0, 0, 0]"
    by (simp add: AllocBuffer_def example_pool_def) (simp add: eval_nat_numeral)
  have r5: "File_ReadAt example_host (Some 5) [0, 0, 0, 0, 0, 0, 0, 0] 3
      = ([108, 111, 0, 0, 0, 0, 0, 0], 2, Some EOF)"
    by (simp add: File_ReadAt_def example_host_def example_content_def eval_nat_numeral)
  have r7: "File_ReadAt example_host (Some 7) [0, 0, 0, 0] 0
      = ([7, 7, 0, 0], 2, Some (Errno syscall_EIO))"
    by (simp add: File_ReadAt_def example_host_def)
  from Read_returns_filled_prefix [of example_host "\<lparr>lf_file = Some 5\<rparr>" example_pool
         "\<lparr>ri_Offset = 3, ri_Size = 8\<rparr>" "[108, 111, 0, 0, 0, 0, 0, 0]" 2 "Some EOF"]
       Read_returns_filled_prefix [of example_host "\<lparr>lf_file = Some 7\<rparr>" example_pool
         "\<lparr>ri_Offset = 0, ri_Size = 4\<rparr>" "[7, 7, 0, 0]" 2 "Some (Errno syscall_EIO)"]
  show ?thesis
    by (simp add: b8 b4 r5 r7 prod_eq_iff to_Status_def syscall_EIO_def)
qed

text \<open>
  C5. \<open>Create\<close> issues one host call, \<open>OpenFile\<close> of the resolved path with the given
  flags ORed with \<open>O_CREATE\<close> and with the given mode. When the host opens the file,
  \<open>Create\<close> answers \<open>OK\<close> and a file handle that holds the host's file; when the host
  fails, the status is the translation of the host's error.
\<close>

theorem Create_opens_with_O_CREATE:
  "snd (Create h me path flags mode)
     = [OsOpenFile (GetPath h me path) (uint flags OR O_CREATE) mode]
   \<and> (os_OpenFile h (GetPath h me path) (uint flags OR O_CREATE) mode = Inr f \<longrightarrow>
        fst (Create h me path flags mode) = (Some \<lparr>lf_file = Some f\<rparr>, OK))
   \<and> (os_OpenFile h (GetPath h me path) (uint flags OR O_CREATE) mode = Inl e \<longrightarrow>
        snd (fst (Create h me path flags mode)) = OsErrorToErrno (Some e))"
  by (simp add: Create_def Let_def val_of_def err_of_def)

theorem Create_opens_with_O_CREATE_witness:
  "snd (Create example_host example_fs ''new.txt'' 1 420) = [OsOpenFile ''/srv/new.txt'' 65 420]
   \<and> fst (Create example_host example_fs ''new.txt'' 1 420) = (Some \<lparr>lf_file = Some 6\<rparr>, OK)
   \<and> snd (fst (Create example_host example_fs ''secret/key'' 1 420)) = 13"
proof -
  have p1: "GetPath example_host example_fs ''new.txt'' = ''/srv/new.txt''"
    by (simp add: GetPath_def example_host_def example_fs_def NewLoopbackFileSystem_def)
  have p2: "GetPath example_host example_fs ''secret/key'' = ''/srv/secret/key''"
    by (simp add: GetPath_def example_host_def example_fs_def NewLoopbackFileSystem_def)
  have fl: "(1 :: int) OR O_CREATE = 65"
    by (simp add: O_CREATE_def)
  have a1: "os_OpenFile example_host ''/srv/new.txt'' 65 420 = Inr 6"
    by (simp add: example_host_def)
  have a2: "os_OpenFile example_host ''/srv/secret/key'' 65 420 = Inl (Errno syscall_EACCES)"
    by (simp add: example_host_def)
  from Create_opens_with_O_CREATE [of example_host example_fs "''new.txt''" 1 420 6]
       Create_opens_with_O_CREATE [of example_host example_fs "''secret/key''" 1 420 _
         "Errno syscall_EACCES"]
  show ?thesis
    by (simp add: p1 p2 fl a1 a2 to_Status_def syscall_EACCES_def)
qed

text \<open>
  C6. When a batch fetch reports an error after \<open>pre\<close>, a run of full batches without
  error, the producer sends the entries that came with the failing answer, issues no
  further fetch, closes the channel and closes the directory. \<open>OpenDir\<close> has answered
  \<open>OK\<close>, and the stream is the very one a host yields whose directory ends, without
  error, after that batch: the consumer has no sign of the error. Whatever the host
  answers, the producer ends with the channel closed and with \<open>Close\<close> of the
  directory as its last host call.
\<close>

theorem OpenDir_batch_error_ends_listing:
  assumes "os_Open h (GetPath h me name) = Inr f"
    and "readdir_answers h f = pre @ (infos, Some e) # rest"
    and "\<forall>b\<in>set pre. want \<le> length (fst b) \<and> snd b = None"
  shows "OpenDir h me name
       = ((Some \<lparr>ch_cap = want, ch_sent = map to_DirEntry (concat (map fst pre) @ infos),
                  ch_closed = True\<rparr>, OK),
          OsOpen (GetPath h me name)
            # replicate (length pre + 1) (FileReaddir f want) @ [FileClose f])
     \<and> fst (OpenDir h me name)
       = fst (OpenDir (h\<lparr>readdir_answers := (readdir_answers h)(f := pre @ [(infos, None)])\<rparr>)
                me name)
     \<and> (\<forall>s c. ch_closed (fst (OpenDir_go f s c))
          \<and> (\<exists>k. snd (OpenDir_go f s c)
                 = replicate (Suc k) (FileReaddir f want) @ [FileClose f]))"
proof -
  have 1: "OpenDir h me name
       = ((Some \<lparr>ch_cap = want, ch_sent = map to_DirEntry (concat (map fst pre) @ infos),
                  ch_closed = True\<rparr>, OK),
          OsOpen (GetPath h me name)
            # replicate (length pre + 1) (FileReaddir f want) @ [FileClose f])"
    using assms(1,2) by (simp add: OpenDir_def Let_def OpenDir_go_error [OF assms(3)])
  have 2: "fst (OpenDir (h\<lparr>readdir_answers := (readdir_answers h)(f := pre @ [(infos, None)])\<rparr>)
                me name)
       = (Some \<lparr>ch_cap = want, ch_sent = map to_DirEntry (concat (map fst pre) @ infos),
                 ch_closed = True\<rparr>, OK)"
    using assms(1) OpenDir_go_normal_end [OF assms(3), of f infos]
    by (simp add: OpenDir_def Let_def GetPath_def split_beta)
  from 1 2 OpenDir_go_closes show ?thesis
    by simp
qed

theorem OpenDir_batch_error_ends_listing_witness:
  "OpenDir example_host example_fs ''flaky''
     = ((Some \<lparr>ch_cap = 500,
                ch_sent = map to_DirEntry (example_entries 500 @ example_entries 3),
                ch_closed = True\<rparr>, OK),
        [OsOpen ''/srv/flaky'', FileReaddir 4 500, FileReaddir 4 500, FileClose 4])"
proof -
  have p: "GetPath example_host example_fs ''flaky'' = ''/srv/flaky''"
    by (simp add: GetPath_def example_host_def example_fs_def NewLoopbackFileSystem_def)
  have a: "os_Open example_host ''/srv/flaky'' = Inr 4"
    by (simp add: example_host_def)
  have r: "readdir_answers example_host 4
      = [(example_entries 500, None)] @ (example_entries 3, Some (Errno syscall_EIO))
          # [(example_entries 7, None)]"
    by (simp add: example_host_def)
  have f: "\<forall>b\<in>set [(example_entries 500, None :: os_error option)].
      want \<le> length (fst b) \<and> snd b = None"
    by (simp add: length_example_entries want_def)
  from OpenDir_batch_error_ends_listing [of example_host example_fs "''flaky''" 4
         "[(example_entries 500, None)]" "example_entries 3" "Errno syscall_EIO"
         "[(example_entries 7, None)]"]
  have "OpenDir example_host example_fs ''flaky''
     = ((Some \<lparr>ch_cap = want,
                ch_sent = map to_DirEntry (concat (map fst [(example_entries 500, None :: os_error option)])
                            @ example_entries 3),
                ch_closed = True\<rparr>, OK),
        OsOpen ''/srv/flaky''
          # replicate (length [(example_entries 500, None :: os_error option)] + 1)
              (FileReaddir 4 want) @ [FileClose 4])"
    unfolding p using a r f by blast
  then show ?thesis
    by (simp add: want_def)
qed

text \<open>
  C7. \<open>Unlink\<close> issues exactly one host call, \<open>syscall.Unlink\<close> of the resolved path: no
  \<open>os.Remove\<close> and no \<open>Rmdir\<close>. Its status is the host's error number.
\<close>

theorem Unlink_issues_one_unlink:
  "Unlink h me name
     = (to_Status (syscall_Unlink h (GetPath h me name)), [SyscallUnlink (GetPath h me name)])
   \<and> length (snd (Unlink h me name)) = 1
   \<and> OsRemove p \<notin> set (snd (Unlink h me name))
   \<and> SyscallRmdir p \<notin> set (snd (Unlink h me name))"
  by (simp add: Unlink_def Let_def)

text \<open>
  C8. \<open>Truncate\<close>, \<open>Chmod\<close>, \<open>Chown\<close> and \<open>GetAttr\<close> of a file handle each issue one
  host call, on the retained file (or its descriptor); no call names a path, and the
  results are the same on any host that differs only in what its path primitives
  answer, as after a rename or an unlink of the path the file was opened by.
\<close>

theorem LoopbackFile_ops_use_retained_handle:
  "LoopbackFile_Truncate h me sz
     = (to_Status (syscall_Ftruncate h (file_Fd h (lf_file me)) (sint sz)),
        [SyscallFtruncate (file_Fd h (lf_file me)) (sint sz)])
   \<and> LoopbackFile_Chmod h me mode
     = (OsErrorToErrno (file_Chmod h (lf_file me) mode), [FileChmod (lf_file me) mode])
   \<and> LoopbackFile_Chown h me uid gid
     = (OsErrorToErrno (file_Chown h (lf_file me) (uint uid) (uint gid)),
        [FileChown (lf_file me) (uint uid) (uint gid)])
   \<and> snd (LoopbackFile_GetAttr h me) = [FileStat (lf_file me)]
   \<and> fst (LoopbackFile_GetAttr h me)
     = (case file_Stat h (lf_file me) of
          Inl err \<Rightarrow> (None, OsErrorToErrno (Some err))
        | Inr fi \<Rightarrow> (Some (CopyFileInfo fi new_Attr), OK))
   \<and> concat (map call_paths
        (snd (LoopbackFile_Truncate h me sz) @ snd (LoopbackFile_Chmod h me mode)
         @ snd (LoopbackFile_Chown h me uid gid) @ snd (LoopbackFile_GetAttr h me))) = []
   \<and> LoopbackFile_Truncate
        (h\<lparr>filepath_Join := j, os_Lstat := l, os_Open := opn, os_OpenFile := opf,
           os_Chmod := chm, syscall_Unlink := unl\<rparr>) me sz
     = LoopbackFile_Truncate h me sz
   \<and> LoopbackFile_Chmod
        (h\<lparr>filepath_Join := j, os_Lstat := l, os_Open := opn, os_OpenFile := opf,
           os_Chmod := chm, syscall_Unlink := unl\<rparr>) me mode
     = LoopbackFile_Chmod h me mode
   \<and> LoopbackFile_Chown
        (h\<lparr>filepath_Join := j, os_Lstat := l, os_Open := opn, os_OpenFile := opf,
           os_Chmod := chm, syscall_Unlink := unl\<rparr>) me uid gid
     = LoopbackFile_Chown h me uid gid
   \<and> LoopbackFile_GetAttr
        (h\<lparr>filepath_Join := j, os_Lstat := l, os_Open := opn, os_OpenFile := opf,
           os_Chmod := chm, syscall_Unlink := unl\<rparr>) me
     = LoopbackFile_GetAttr h me"
  by (simp add: LoopbackFile_Truncate_def LoopbackFile_Chmod_def LoopbackFile_Chown_def
      LoopbackFile_GetAttr_def Let_def split: sum.splits)

text \<open>
  C9. When the host's \<open>OpenFile\<close> fails, \<open>Create\<close> still answers with a file handle, one
  that holds a nil host file, next to the status of the error; \<open>Open\<close> answers with no
  handle. A test of the returned handle against nil does not see that \<open>Create\<close> failed.
\<close>

theorem Create_failure_returns_handle:
  "(os_OpenFile h (GetPath h me path) (uint flags OR O_CREATE) mode = Inl e \<longrightarrow>
      fst (Create h me path flags mode) = (Some \<lparr>lf_file = None\<rparr>, OsErrorToErrno (Some e))
      \<and> fst (fst (Create h me path flags mode)) \<noteq> None)
   \<and> (os_OpenFile h (GetPath h me path) (uint flags) 0 = Inl e' \<longrightarrow>
      fst (Open h me path flags) = (None, OsErrorToErrno (Some e')))"
  by (simp add: Create_def Open_def Let_def val_of_def err_of_def)

theorem Create_failure_returns_handle_witness:
  "fst (Create example_host example_fs ''secret/key'' 2 384) = (Some \<lparr>lf_file = None\<rparr>, 13)
   \<and> fst (Open example_host example_fs ''secret/key'' 2) = (None, 13)"
proof -
  have p: "GetPath example_host example_fs ''secret/key'' = ''/srv/secret/key''"
    by (simp add: GetPath_def example_host_def example_fs_def NewLoopbackFileSystem_def)
  have a: "os_OpenFile example_host ''/srv/secret/key'' fl perm = Inl (Errno syscall_EACCES)"
    for fl perm
    by (simp add: example_host_def)
  from Create_failure_returns_handle [of example_host example_fs "''secret/key''" 2 384
         "Errno syscall_EACCES" "Errno syscall_EACCES"]
  show ?thesis
    by (simp add: p a to_Status_def syscall_EACCES_def)
qed

text \<open>
  C10. When the host fails to open the directory, \<open>OpenDir\<close> answers with a nil stream
  and the translation of the host's error; the only host call is the failed \<open>Open\<close>, so
  no producer has run and nothing is left to close.
\<close>

theorem OpenDir_open_failure:
  "os_Open h (GetPath h me name) = Inl e \<Longrightarrow>
     OpenDir h me name = ((None, OsErrorToErrno (Some e)), [OsOpen (GetPath h me name)])"
  by (simp add: OpenDir_def Let_def)

theorem OpenDir_open_failure_witness:
  "OpenDir example_host example_fs ''gone'' = ((None, 2), [OsOpen ''/srv/gone''])"
proof -
  have p: "GetPath example_host example_fs ''gone'' = ''/srv/gone''"
    by (simp add: GetPath_def example_host_def example_fs_def NewLoopbackFileSystem_def)
  have a: "os_Open example_host ''/srv/gone'' = Inl (Errno syscall_ENOENT)"
    by (simp add: example_host_def)
  from OpenDir_open_failure [of example_host example_fs "''gone''" "Errno syscall_ENOENT"]
  show ?thesis
    by (simp add: p a to_Status_def syscall_ENOENT_def)
qed

end
